theory Spec2Isabelle
  imports Complex_Main
begin

section \<open>Values, errors and the remote API\<close>

text \<open>
  The script talks to the Hacker News item endpoint with \<open>requests.get(url).json()\<close>.
  A decoded body is a JSON value. \<open>JObj\<close> holds the items of the decoded dictionary
  (keys distinct, as in a Python dict). A text is the list of its characters, and
  its length their number, as Python counts them: one \<open>char\<close> stands for one character
  of the text (the type has the 8-bit ones).
\<close>

datatype json =
    JNull
  | JBool bool
  | JInt int
  | JFloat real
  | JStr string
  | JList "json list"
  | JObj "(string \<times> json) list"

text \<open>Every exception the modelled code can raise is a value.\<close>

datatype py_error =
    ConnectionError
  | JSONDecodeError
  | AttributeError
  | TypeError
  | KeyError
  | ValueError
  | FileNotFoundError
  | EmptyDataError
  | ParserError

text \<open>
  What one GET of an item URL does: the connection fails (\<open>requests.get\<close> raises), the
  body is not JSON (\<open>.json()\<close> raises), or the body decodes. The endpoint answers the
  body \<open>null\<close> for an item it does not have, which decodes to \<open>None\<close>.
\<close>

datatype response = Unreachable | Undecodable | Decoded json

text \<open>A snapshot of the API: the identifier formatted into the URL decides the answer.\<close>

type_synonym api = "json \<Rightarrow> response"

text \<open>\<open>requests.get(url).json()\<close>, given what the GET does.\<close>

definition response_json :: "response \<Rightarrow> py_error + json" where
  "response_json r =
     (case r of
        Unreachable \<Rightarrow> Inl ConnectionError
      | Undecodable \<Rightarrow> Inl JSONDecodeError
      | Decoded body \<Rightarrow> Inr body)"

definition request_json :: "api \<Rightarrow> json \<Rightarrow> py_error + json" where
  "request_json api ident = response_json (api ident)"

definition fetch_story_details :: "api \<Rightarrow> json \<Rightarrow> py_error + json" where
  "fetch_story_details api story_id = request_json api story_id"

definition fetch_comment_details :: "api \<Rightarrow> json \<Rightarrow> py_error + json" where
  "fetch_comment_details api comment_id = request_json api comment_id"

definition on_return :: "'e + 'a \<Rightarrow> ('a \<Rightarrow> 'e + 'b) \<Rightarrow> 'e + 'b" where
  "on_return m k = (case m of Inl e \<Rightarrow> Inl e | Inr v \<Rightarrow> k v)"

section \<open>Python operations on decoded values\<close>

fun truthy :: "json \<Rightarrow> bool" where
  "truthy JNull = False"
| "truthy (JBool b) = b"
| "truthy (JInt n) = (n \<noteq> 0)"
| "truthy (JFloat r) = (r \<noteq> 0)"
| "truthy (JStr s) = (s \<noteq> [])"
| "truthy (JList xs) = (xs \<noteq> [])"
| "truthy (JObj kvs) = (kvs \<noteq> [])"

text \<open>\<open>d.get(key, default)\<close> on the items of a dict.\<close>

definition dict_get :: "(string \<times> json) list \<Rightarrow> string \<Rightarrow> json \<Rightarrow> json" where
  "dict_get kvs key dflt = (case map_of kvs key of None \<Rightarrow> dflt | Some v \<Rightarrow> v)"

text \<open>\<open>len(v)\<close>: defined on strings, lists and dicts, a TypeError elsewhere.\<close>

fun py_len :: "json \<Rightarrow> py_error + nat" where
  "py_len (JStr s) = Inr (length s)"
| "py_len (JList xs) = Inr (length xs)"
| "py_len (JObj kvs) = Inr (length kvs)"
| "py_len _ = Inl TypeError"

text \<open>\<open>xs[:n]\<close>: a negative stop counts from the end and is clamped at 0.\<close>

definition py_slice_to :: "'a list \<Rightarrow> int \<Rightarrow> 'a list" where
  "py_slice_to xs n =
     (if 0 \<le> n then take (nat n) xs else take (nat (int (length xs) + n)) xs)"

text \<open>\<open>p in s\<close> on strings: \<open>p\<close> occurs in \<open>s\<close> as a contiguous run.\<close>

fun py_in_str :: "string \<Rightarrow> string \<Rightarrow> bool" where
  "py_in_str p [] = (p = [])"
| "py_in_str p (c # cs) = (take (length p) (c # cs) = p \<or> py_in_str p cs)"

text \<open>\<open>'kids' in v\<close>: key test on a dict, element test on a list, substring test on a
  string, a TypeError on a value that is not a container.\<close>

fun py_contains_kids :: "json \<Rightarrow> py_error + bool" where
  "py_contains_kids (JObj kvs) = Inr (''kids'' \<in> fst ` set kvs)"
| "py_contains_kids (JList xs) = Inr (JStr ''kids'' \<in> set xs)"
| "py_contains_kids (JStr s) = Inr (py_in_str ''kids'' s)"
| "py_contains_kids _ = Inl TypeError"

text \<open>\<open>v['kids']\<close>: the value under the key of a dict; a list or a string refuses a
  string index.\<close>

fun py_subscript_kids :: "json \<Rightarrow> py_error + json" where
  "py_subscript_kids (JObj kvs) =
     (case map_of kvs ''kids'' of None \<Rightarrow> Inl KeyError | Some v \<Rightarrow> Inr v)"
| "py_subscript_kids _ = Inl TypeError"

text \<open>Iterating a value: the elements of a list, the characters of a string, the keys
  of a dict.\<close>

fun py_iter :: "json \<Rightarrow> py_error + json list" where
  "py_iter (JList xs) = Inr xs"
| "py_iter (JStr s) = Inr (map (\<lambda>c. JStr [c]) s)"
| "py_iter (JObj kvs) = Inr (map (\<lambda>kv. JStr (fst kv)) kvs)"
| "py_iter _ = Inl TypeError"

section \<open>Bounded concurrent retrieval\<close>

text \<open>
  \<open>list(executor.map(f, xs))\<close> submits one task per element and reads the results back
  in submission order; the first task, in that order, whose call raised re-raises
  there. This is the value the builders see.
\<close>

fun executor_map :: "('a \<Rightarrow> py_error + 'b) \<Rightarrow> 'a list \<Rightarrow> py_error + 'b list" where
  "executor_map f [] = Inr []"
| "executor_map f (x # xs) =
     (case f x of
        Inl e \<Rightarrow> Inl e
      | Inr v \<Rightarrow> (case executor_map f xs of Inl e \<Rightarrow> Inl e | Inr vs \<Rightarrow> Inr (v # vs)))"

text \<open>
  The pool behind it. Every task has a slot for its outcome, empty until a worker
  finishes the task. \<open>order\<close> is the order in which tasks finish: the number of workers
  and the network decide it, the code does not. \<open>gather\<close> reads the slots in submission
  order; reading an empty slot would wait forever, which is the value \<open>None\<close>.
\<close>

definition finish_task :: "('a \<Rightarrow> 'r) \<Rightarrow> 'a list \<Rightarrow> 'r option list \<Rightarrow> nat \<Rightarrow> 'r option list" where
  "finish_task f xs slots i = (if i < length xs then slots[i := Some (f (xs ! i))] else slots)"

definition run_pool :: "nat list \<Rightarrow> ('a \<Rightarrow> 'r) \<Rightarrow> 'a list \<Rightarrow> 'r option list" where
  "run_pool order f xs = foldl (finish_task f xs) (replicate (length xs) None) order"

fun gather :: "(py_error + 'b) option list \<Rightarrow> (py_error + 'b list) option" where
  "gather [] = Some (Inr [])"
| "gather (None # rest) = None"
| "gather (Some (Inl e) # rest) = Some (Inl e)"
| "gather (Some (Inr v) # rest) =
     (case gather rest of
        None \<Rightarrow> None
      | Some (Inl e) \<Rightarrow> Some (Inl e)
      | Some (Inr vs) \<Rightarrow> Some (Inr (v # vs)))"

definition pool_map :: "nat list \<Rightarrow> ('a \<Rightarrow> py_error + 'b) \<Rightarrow> 'a list \<Rightarrow> (py_error + 'b list) option" where
  "pool_map order f xs = gather (run_pool order f xs)"

section \<open>Story and comment tables\<close>

text \<open>
  The dictionaries the two builders append. A field read with \<open>.get(key)\<close> holds the
  value of the key, \<open>JNull\<close> (Python's \<open>None\<close>) when the key is missing.
\<close>

record story =
  s_id :: json
  s_title :: json
  s_url :: json
  s_score :: json
  s_author :: json
  s_time :: json
  s_comments_count :: nat
  s_type :: json
  s_descendants :: json

record comment =
  c_author :: json
  c_text :: json
  c_time :: json
  c_parent_story :: json

text \<open>
  The dictionary built from one fetched story. \<open>.get\<close> exists on a dict only, so any
  other truthy value raises AttributeError; \<open>len\<close> of a \<open>kids\<close> value that has no
  length raises TypeError.
\<close>

definition story_record :: "json \<Rightarrow> py_error + story" where
  "story_record story_details =
     (case story_details of
        JObj kvs \<Rightarrow>
          on_return (py_len (dict_get kvs ''kids'' (JList []))) (\<lambda>n.
            Inr \<lparr> s_id = dict_get kvs ''id'' JNull,
                  s_title = dict_get kvs ''title'' JNull,
                  s_url = dict_get kvs ''url'' JNull,
                  s_score = dict_get kvs ''score'' JNull,
                  s_author = dict_get kvs ''by'' JNull,
                  s_time = dict_get kvs ''time'' JNull,
                  s_comments_count = n,
                  s_type = dict_get kvs ''type'' JNull,
                  s_descendants = dict_get kvs ''descendants'' (JInt 0) \<rparr>)
      | _ \<Rightarrow> Inl AttributeError)"

text \<open>The loop over \<open>story_details_list\<close>: a falsy result is skipped.\<close>

fun append_stories :: "json list \<Rightarrow> py_error + story list" where
  "append_stories [] = Inr []"
| "append_stories (story_details # rest) =
     (if truthy story_details then
        (case story_record story_details of
           Inl e \<Rightarrow> Inl e
         | Inr s \<Rightarrow> (case append_stories rest of Inl e \<Rightarrow> Inl e | Inr ss \<Rightarrow> Inr (s # ss)))
      else append_stories rest)"

definition Retrieving_data_about_articles :: "api \<Rightarrow> json list \<Rightarrow> int \<Rightarrow> py_error + story list" where
  "Retrieving_data_about_articles api array num_stories =
     on_return (executor_map (fetch_story_details api) (py_slice_to array num_stories))
       append_stories"

definition comment_record :: "json \<Rightarrow> json \<Rightarrow> py_error + comment" where
  "comment_record story_id comment_details =
     (case comment_details of
        JObj kvs \<Rightarrow>
          Inr \<lparr> c_author = dict_get kvs ''by'' JNull,
                c_text = dict_get kvs ''text'' JNull,
                c_time = dict_get kvs ''time'' JNull,
                c_parent_story = story_id \<rparr>
      | _ \<Rightarrow> Inl AttributeError)"

fun append_comments :: "json \<Rightarrow> json list \<Rightarrow> py_error + comment list" where
  "append_comments story_id [] = Inr []"
| "append_comments story_id (comment_details # rest) =
     (if truthy comment_details then
        (case comment_record story_id comment_details of
           Inl e \<Rightarrow> Inl e
         | Inr c \<Rightarrow>
             (case append_comments story_id rest of Inl e \<Rightarrow> Inl e | Inr cs \<Rightarrow> Inr (c # cs)))
      else append_comments story_id rest)"

text \<open>
  The body of the loop over \<open>stories_data\<close>, for the story with identifier
  \<open>story_id\<close>: the story is fetched again, and its \<open>kids\<close> are fetched through the pool.
\<close>

definition story_comments :: "api \<Rightarrow> json \<Rightarrow> py_error + comment list" where
  "story_comments api story_id =
     on_return (request_json api story_id) (\<lambda>story_details.
       if truthy story_details then
         on_return (py_contains_kids story_details) (\<lambda>has_kids.
           if has_kids then
             on_return (py_subscript_kids story_details) (\<lambda>comment_ids.
               on_return (py_iter comment_ids) (\<lambda>ids.
                 on_return (executor_map (fetch_comment_details api) ids)
                   (append_comments story_id)))
           else Inr [])
       else Inr [])"

fun Fetching_responses_to_top_stories :: "api \<Rightarrow> story list \<Rightarrow> py_error + comment list" where
  "Fetching_responses_to_top_stories api [] = Inr []"
| "Fetching_responses_to_top_stories api (story # rest) =
     (case story_comments api (s_id story) of
        Inl e \<Rightarrow> Inl e
      | Inr cs \<Rightarrow>
          (case Fetching_responses_to_top_stories api rest of
             Inl e \<Rightarrow> Inl e
           | Inr others \<Rightarrow> Inr (cs @ others)))"

section \<open>Tables on disk\<close>

text \<open>
  A delimited file is kept as its lines, each line as its field texts: the quoting of
  the csv writer and the tokenising of the reader are the two libraries' business.
  A blank line is the line with no field. The file system maps a path to its file.
\<close>

type_synonym csv_file = "string list list"

type_synonym files = "string \<rightharpoonup> csv_file"

text \<open>\<open>str(n)\<close> of an integer: its decimal digits, a minus sign before a negative one.\<close>

function str_nat :: "nat \<Rightarrow> string" where
  "str_nat n =
     (if n < 10 then [''0123456789'' ! n]
      else str_nat (n div 10) @ [''0123456789'' ! (n mod 10)])"
  by pat_completeness auto
termination
  by (relation "measure id") auto

declare str_nat.simps [simp del]

definition str_int :: "int \<Rightarrow> string" where
  "str_int n = (if n < 0 then CHR ''-'' # str_nat (nat (- n)) else str_nat (nat n))"

text \<open>
  The text the csv writer emits for a value: nothing for \<open>None\<close>, \<open>str(value)\<close>
  otherwise. For a float, a list or a dict that is Python's \<open>repr\<close>, taken as the
  parameter \<open>py_repr\<close>.
\<close>

fun csv_text :: "(json \<Rightarrow> string) \<Rightarrow> json \<Rightarrow> string" where
  "csv_text py_repr JNull = []"
| "csv_text py_repr (JStr s) = s"
| "csv_text py_repr (JInt n) = str_int n"
| "csv_text py_repr (JBool b) = (if b then ''True'' else ''False'')"
| "csv_text py_repr v = py_repr v"

definition story_fieldnames :: "string list" where
  "story_fieldnames =
     [''id'', ''title'', ''url'', ''score'', ''author'', ''time'', ''comments_count'',
      ''type'', ''descendants'']"

definition story_row :: "(json \<Rightarrow> string) \<Rightarrow> story \<Rightarrow> string list" where
  "story_row py_repr s =
     [csv_text py_repr (s_id s), csv_text py_repr (s_title s), csv_text py_repr (s_url s),
      csv_text py_repr (s_score s), csv_text py_repr (s_author s),
      csv_text py_repr (s_time s), str_int (int (s_comments_count s)),
      csv_text py_repr (s_type s), csv_text py_repr (s_descendants s)]"

definition Saving_data_in_a_csv_file ::
    "(json \<Rightarrow> string) \<Rightarrow> files \<Rightarrow> story list \<Rightarrow> string \<Rightarrow> string \<Rightarrow> files" where
  "Saving_data_in_a_csv_file py_repr fs array_of_dictionaries path name =
     fs(path @ name @ ''.csv'' \<mapsto>
        story_fieldnames # map (story_row py_repr) array_of_dictionaries)"

definition comment_fieldnames :: "string list" where
  "comment_fieldnames = [''author'', ''text'', ''time'', ''parent_story'']"

definition comment_row :: "(json \<Rightarrow> string) \<Rightarrow> comment \<Rightarrow> string list" where
  "comment_row py_repr c =
     [csv_text py_repr (c_author c), csv_text py_repr (c_text c),
      csv_text py_repr (c_time c), csv_text py_repr (c_parent_story c)]"

definition Saving_comments_data_in_a_csv_file ::
    "(json \<Rightarrow> string) \<Rightarrow> files \<Rightarrow> comment list \<Rightarrow> files" where
  "Saving_comments_data_in_a_csv_file py_repr fs comments_data =
     fs(''comments.csv'' \<mapsto> comment_fieldnames # map (comment_row py_repr) comments_data)"

section \<open>Tables read back\<close>

text \<open>
  A cell of a DataFrame read by \<open>pd.read_csv\<close>: missing (\<open>NaN\<close>), a text, or a value
  of a column the reader converted: an integer (dtype int64), a float or a boolean.
\<close>

datatype cell = NaN | Text string | Integer int | Floating real | Boolean bool

record dataframe =
  df_columns :: "string list"
  df_rows :: "cell list list"

text \<open>The texts \<open>pd.read_csv\<close> reads as missing when called with its defaults.\<close>

definition na_values :: "string list" where
  "na_values =
     [[], ''#N/A'', ''#N/A N/A'', ''#NA'', ''-1.#IND'', ''-1.#QNAN'', ''-NaN'', ''-nan'',
      ''1.#IND'', ''1.#QNAN'', ''<NA>'', ''N/A'', ''NA'', ''NULL'', ''NaN'', ''None'',
      ''n/a'', ''nan'', ''null'']"

text \<open>A field as the reader first sees it: missing, or its text.\<close>

definition mark :: "string \<Rightarrow> string option" where
  "mark s = (if s \<in> set na_values then None else Some s)"

text \<open>The cell of a column that stays text.\<close>

fun text_cell :: "string option \<Rightarrow> cell" where
  "text_cell None = NaN"
| "text_cell (Some s) = Text s"

fun position :: "'a \<Rightarrow> 'a list \<Rightarrow> nat option" where
  "position x [] = None"
| "position x (y # ys) = (if x = y then Some 0 else map_option Suc (position x ys))"

text \<open>
  A text made of decimal digits, with or without a minus sign before them, read as
  an integer; the reader takes it for an int64 when it fits 64 bits.
\<close>

fun nat_of_digits :: "string \<Rightarrow> nat \<Rightarrow> nat option" where
  "nat_of_digits [] acc = Some acc"
| "nat_of_digits (c # cs) acc =
     (case position c ''0123456789'' of
        None \<Rightarrow> None
      | Some d \<Rightarrow> nat_of_digits cs (10 * acc + d))"

definition plain_int :: "string \<Rightarrow> int option" where
  "plain_int s =
     (case s of
        [] \<Rightarrow> None
      | c # cs \<Rightarrow>
          if c = CHR ''-'' then
            (if cs = [] then None else map_option (\<lambda>n. - int n) (nat_of_digits cs 0))
          else map_option int (nat_of_digits s 0))"

definition int64 :: "int \<Rightarrow> bool" where
  "int64 n = (- (2 ^ 63) \<le> n \<and> n < 2 ^ 63)"

definition int64_text :: "string \<Rightarrow> int option" where
  "int64_text s =
     (case plain_int s of
        None \<Rightarrow> None
      | Some n \<Rightarrow> if int64 n then Some n else None)"

definition present :: "string option list \<Rightarrow> string list" where
  "present tokens = concat (map (\<lambda>t. case t of None \<Rightarrow> [] | Some s \<Rightarrow> [s]) tokens)"

definition integer_column :: "string option list \<Rightarrow> bool" where
  "integer_column tokens =
     (present tokens \<noteq> [] \<and> list_all (\<lambda>s. int64_text s \<noteq> None) (present tokens))"

fun integer_cell :: "string option \<Rightarrow> cell" where
  "integer_cell None = NaN"
| "integer_cell (Some s) = (case int64_text s of None \<Rightarrow> Text s | Some n \<Rightarrow> Integer n)"

text \<open>An integer text that float64 holds exactly (the text of minus zero set aside).\<close>

definition exact_float_text :: "string \<Rightarrow> bool" where
  "exact_float_text s =
     (case int64_text s of
        None \<Rightarrow> False
      | Some n \<Rightarrow> \<bar>n\<bar> \<le> 2 ^ 53 \<and> \<not> (n = 0 \<and> take 1 s = ''-''))"

fun floating_cell :: "string option \<Rightarrow> cell" where
  "floating_cell None = NaN"
| "floating_cell (Some s) =
     (case int64_text s of None \<Rightarrow> Text s | Some n \<Rightarrow> Floating (real_of_int n))"

text \<open>
  What the reader makes of one column. When every text that is not missing is such
  an integer, the column is int64 if no cell is missing and float64 otherwise, the
  integers up to 2^53 in magnitude being kept exactly. Every other column is left to
  \<open>other_dtype\<close>, the rest of the reader's type inference (floats, booleans, wider
  integers), which is not modelled: it answers the conversion of a text when it
  converts the column, \<open>None\<close> when the column stays text.
\<close>

definition read_column ::
    "(string option list \<Rightarrow> (string \<Rightarrow> cell) option) \<Rightarrow> string option list \<Rightarrow> cell list" where
  "read_column other_dtype tokens =
     (if integer_column tokens \<and> list_all (\<lambda>t. t \<noteq> None) tokens then
        map integer_cell tokens
      else if integer_column tokens
          \<and> list_all exact_float_text (present tokens) then
        map floating_cell tokens
      else
        (case other_dtype tokens of
           None \<Rightarrow> map text_cell tokens
         | Some convert \<Rightarrow>
             map (\<lambda>t. case t of None \<Rightarrow> NaN | Some s \<Rightarrow> convert s) tokens))"

text \<open>The rows of the table whose columns are read one by one.\<close>

definition kept_as_text ::
    "(string option list \<Rightarrow> (string \<Rightarrow> cell) option) \<Rightarrow> string option list \<Rightarrow> bool" where
  "kept_as_text other_dtype tokens =
     (\<not> integer_column tokens \<and> other_dtype tokens = None)"

definition read_table ::
    "(string option list \<Rightarrow> (string \<Rightarrow> cell) option) \<Rightarrow> nat \<Rightarrow> string option list list
       \<Rightarrow> cell list list" where
  "read_table other_dtype width table =
     map (\<lambda>i. map (\<lambda>j. read_column other_dtype (map (\<lambda>row. row ! j) table) ! i) [0..<width])
       [0..<length table]"

text \<open>
  Blank lines are skipped; the first line left is the header, taken as it is written
  (the headers of the script are distinct and not empty); a file with no line left
  has no columns to parse. When the first data line has more fields than the header,
  the fields in excess, from the left, are the index, in every line. A later line
  with more fields than that is refused; a line with fewer is padded with missing
  fields.
\<close>

definition parse_csv ::
    "(string option list \<Rightarrow> (string \<Rightarrow> cell) option) \<Rightarrow> csv_file \<Rightarrow> py_error + dataframe" where
  "parse_csv other_dtype f =
     (case filter (\<lambda>line. line \<noteq> []) f of
        [] \<Rightarrow> Inl EmptyDataError
      | header # rest \<Rightarrow>
          (let width = length header;
               index_width =
                 (case rest of
                    [] \<Rightarrow> 0
                  | first # _ \<Rightarrow> if width < length first then length first - width else 0)
           in if list_ex (\<lambda>line. width + index_width < length line) rest
              then Inl ParserError
              else Inr \<lparr> df_columns = header,
                         df_rows = read_table other_dtype width
                           (map (\<lambda>line. drop index_width
                                   (map mark line
                                      @ replicate (width + index_width - length line) None))
                              rest) \<rparr>))"

definition read_csv ::
    "(string option list \<Rightarrow> (string \<Rightarrow> cell) option) \<Rightarrow> files \<Rightarrow> string
       \<Rightarrow> py_error + dataframe" where
  "read_csv other_dtype fs path =
     (case fs path of None \<Rightarrow> Inl FileNotFoundError | Some f \<Rightarrow> parse_csv other_dtype f)"

text \<open>\<open>df[name]\<close>: the cells of the column, a KeyError when there is no such column.\<close>

definition column :: "dataframe \<Rightarrow> string \<Rightarrow> py_error + cell list" where
  "column df name =
     (case position name (df_columns df) of
        None \<Rightarrow> Inl KeyError
      | Some i \<Rightarrow> Inr (map (\<lambda>row. if i < length row then row ! i else NaN) (df_rows df)))"

section \<open>Analysis steps\<close>

text \<open>
  A numpy float: a finite value (taken exactly; rounding is not modelled), or one of
  the three special values. Dividing a numpy integer by zero raises nothing: it
  warns and gives \<open>nan\<close> for 0/0 and an infinity otherwise.
\<close>

datatype np_float = FNum real | FNan | FPosInf | FNegInf

definition np_true_divide :: "int \<Rightarrow> int \<Rightarrow> np_float" where
  "np_true_divide a b =
     (if b = 0 then (if a = 0 then FNan else if 0 < a then FPosInf else FNegInf)
      else FNum (real_of_int a / real_of_int b))"

fun times_100 :: "np_float \<Rightarrow> np_float" where
  "times_100 (FNum r) = FNum (r * 100)"
| "times_100 x = x"

definition notna :: "cell \<Rightarrow> bool" where
  "notna c = (c \<noteq> NaN)"

text \<open>
  Lines 224 to 227: \<open>external_links\<close> is a numpy integer (the sum of a boolean
  column), \<open>len(stories_df)\<close> a Python integer; the two percentages are stored under
  \<open>external_links_percentage\<close> and \<open>self_posts_percentage\<close>.
\<close>

definition link_percentages :: "dataframe \<Rightarrow> py_error + np_float \<times> np_float" where
  "link_percentages stories_df =
     on_return (column stories_df ''url'') (\<lambda>url.
       let external_links = int (length (filter notna url));
           self_posts = int (length (df_rows stories_df)) - external_links
       in Inr (times_100 (np_true_divide external_links (int (length (df_rows stories_df)))),
               times_100 (np_true_divide self_posts (int (length (df_rows stories_df))))))"

text \<open>
  Line 229: \<open>plt.pie\<close> refuses a negative size, and sizes that add up to zero: their
  shares are 0/0 and the first wedge cannot be drawn. Both are a ValueError.
\<close>

definition plt_pie :: "int list \<Rightarrow> py_error + unit" where
  "plt_pie x =
     (if list_ex (\<lambda>v. v < 0) x then Inl ValueError
      else if x \<noteq> [] \<and> sum_list x = 0 then Inl ValueError
      else Inr ())"

text \<open>
  Lines 224 to 232 as a whole: the two percentages are computed and stored, then the
  pie chart of the two counts is drawn and saved.
\<close>

definition link_distribution_chart :: "dataframe \<Rightarrow> py_error + np_float \<times> np_float" where
  "link_distribution_chart stories_df =
     on_return (link_percentages stories_df) (\<lambda>percentages.
       on_return (column stories_df ''url'') (\<lambda>url.
         let external_links = int (length (filter notna url));
             self_posts = int (length (df_rows stories_df)) - external_links
         in on_return (plt_pie [external_links, self_posts]) (\<lambda>drawn. Inr percentages)))"

text \<open>
  The analysis up to that chart. \<open>earlier\<close> is the outcome of lines 146 to 221 (the
  means, the first charts, the keywords), which are not modelled. The metrics file
  is written at the very end of the analysis, after this.
\<close>

definition analysis_through_link_chart ::
    "py_error + unit \<Rightarrow> dataframe \<Rightarrow> py_error + np_float \<times> np_float" where
  "analysis_through_link_chart earlier stories_df =
     on_return earlier (\<lambda>done. link_distribution_chart stories_df)"






text \<open>
  Lines 270 and 271: the score of a text is the analyser's compound polarity (the
  parameter \<open>compound\<close>, a finite float), 0 for the empty text; the label compares
  the score with zero.
\<close>

datatype label = Positive | Negative | Neutral

definition sentiment :: "(string \<Rightarrow> real) \<Rightarrow> string \<Rightarrow> real" where
  "sentiment compound x = (if x \<noteq> [] then compound x else 0)"

definition sentiment_label :: "real \<Rightarrow> label" where
  "sentiment_label x = (if x > 0 then Positive else if x < 0 then Negative else Neutral)"

section \<open>Orchestrator\<close>

text \<open>
  \<open>array[:num_stories]\<close> on the decoded list of top stories, as the pool iterates it.
  A string slices to a string, iterated by character; a value that cannot be sliced
  raises (a dict raises TypeError before Python 3.12).
\<close>

fun top_stories_sequence :: "json \<Rightarrow> py_error + json list" where
  "top_stories_sequence (JList xs) = Inr xs"
| "top_stories_sequence (JStr s) = Inr (map (\<lambda>c. JStr [c]) s)"
| "top_stories_sequence _ = Inl TypeError"

text \<open>
  The run, up to the call of the analysis: the files it leaves, and either the error
  that stopped it or the two tables handed to the analysis. \<open>top_list\<close> is what the GET of
  the top-stories list does.
\<close>

definition Data_collection_and_analysis_from_Hacker_News ::
    "(json \<Rightarrow> string) \<Rightarrow> (string option list \<Rightarrow> (string \<Rightarrow> cell) option)
       \<Rightarrow> response \<Rightarrow> api \<Rightarrow> files \<Rightarrow> int
       \<Rightarrow> files \<times> (py_error + dataframe \<times> dataframe)" where
  "Data_collection_and_analysis_from_Hacker_News py_repr other_dtype top_list api fs
       num_of_stories =
     (case on_return (on_return (response_json top_list) top_stories_sequence)
             (\<lambda>top_stories_ids_array.
                Retrieving_data_about_articles api top_stories_ids_array num_of_stories) of
        Inl e \<Rightarrow> (fs, Inl e)
      | Inr articles_data \<Rightarrow>
          (let fs1 = Saving_data_in_a_csv_file py_repr fs articles_data [] ''top_stories'' in
           case Fetching_responses_to_top_stories api articles_data of
             Inl e \<Rightarrow> (fs1, Inl e)
           | Inr comments_data \<Rightarrow>
               (let fs2 = (if comments_data \<noteq> []
                           then Saving_comments_data_in_a_csv_file py_repr fs1 comments_data
                           else fs1)
                in (fs2,
                    on_return (read_csv other_dtype fs2 ''top_stories.csv'') (\<lambda>stories_df.
                      on_return (read_csv other_dtype fs2 ''comments.csv'') (\<lambda>comments_df.
                        Inr (stories_df, comments_df)))))))"

text \<open>API snapshots used as concrete inputs below.\<close>

definition api_second_undecodable :: api where
  "api_second_undecodable ident =
     (if ident = JInt 2 then Undecodable else Decoded (JObj [(''id'', ident)]))"

definition api_second_absent :: api where
  "api_second_absent ident =
     (if ident = JInt 2 then Decoded JNull else Decoded (JObj [(''id'', ident)]))"

definition api_mixed :: api where
  "api_mixed ident =
     (if ident = JInt 2 then Undecodable
      else if ident = JInt 3 then Decoded JNull
      else if ident = JInt 4 then Unreachable
      else Decoded (JObj [(''id'', ident)]))"

definition api_demo :: api where
  "api_demo ident =
     (if ident = JInt 1 then
        Decoded (JObj [(''id'', JInt 1), (''title'', JStr ''Ask HN''), (''score'', JInt 10),
                       (''by'', JStr ''pg''), (''time'', JInt 1700000000),
                       (''kids'', JList [JInt 11, JInt 12]), (''type'', JStr ''story'')])
      else if ident = JInt 3 then
        Decoded (JObj [(''id'', JInt 3), (''title'', JStr ''Show HN''),
                       (''url'', JStr ''http://x''), (''score'', JInt 30),
                       (''by'', JStr ''dang''), (''time'', JInt 1700003600),
                       (''type'', JStr ''story''), (''descendants'', JInt 7)])
      else if ident = JInt 11 then
        Decoded (JObj [(''id'', JInt 11), (''by'', JStr ''null''), (''text'', JStr ''nice''),
                       (''time'', JInt 1700000100)])
      else Decoded JNull)"

definition api_error_body :: api where
  "api_error_body ident = Decoded (JObj [(''error'', JStr ''Permission denied'')])"

definition demo_story_1 :: story where
  "demo_story_1 =
     \<lparr> s_id = JInt 1, s_title = JStr ''Ask HN'', s_url = JNull, s_score = JInt 10,
       s_author = JStr ''pg'', s_time = JInt 1700000000, s_comments_count = 2,
       s_type = JStr ''story'', s_descendants = JInt 0 \<rparr>"

definition demo_story_3 :: story where
  "demo_story_3 =
     \<lparr> s_id = JInt 3, s_title = JStr ''Show HN'', s_url = JStr ''http://x'',
       s_score = JInt 30, s_author = JStr ''dang'', s_time = JInt 1700003600,
       s_comments_count = 0, s_type = JStr ''story'', s_descendants = JInt 7 \<rparr>"

definition demo_comment_11 :: comment where
  "demo_comment_11 =
     \<lparr> c_author = JStr ''null'', c_text = JStr ''nice'', c_time = JInt 1700000100,
       c_parent_story = JInt 1 \<rparr>"

text \<open>The demo story table as read back from its file, and a Python \<open>repr\<close> that is
  never consulted on tables of scalars.\<close>

definition demo_stories_df :: dataframe where
  "demo_stories_df =
     \<lparr> df_columns = story_fieldnames,
       df_rows =
         [[Integer 1, Text ''Ask HN'', NaN, Integer 10, Text ''pg'', Integer 1700000000,
           Integer 2, Text ''story'', Integer 0],
          [Integer 3, Text ''Show HN'', Text ''http://x'', Integer 30, Text ''dang'',
           Integer 1700003600, Integer 0, Text ''story'', Integer 7]] \<rparr>"

definition repr_unused :: "json \<Rightarrow> string" where
  "repr_unused v = []"

text \<open>A reader that converts integer columns only, and a rendering of floats that is
  never consulted.\<close>

definition no_other_dtype :: "string option list \<Rightarrow> (string \<Rightarrow> cell) option" where
  "no_other_dtype tokens = None"




text \<open>A comment file left by an earlier run, about a story with identifier 99.\<close>

definition stale_comments_file :: csv_file where
  "stale_comments_file =
     [comment_fieldnames, [''pg'', ''an old comment'', ''1600000000'', ''99'']]"

section \<open>Item fetcher and retriever: results\<close>

lemma finish_task_length: "length (finish_task f xs slots i) = length slots"
  by (simp add: finish_task_def)

lemma run_pool_slots:
  "length slots = length xs \<Longrightarrow>
   length (foldl (finish_task f xs) slots order) = length xs \<and>
   (\<forall>i < length xs. foldl (finish_task f xs) slots order ! i =
      (if i \<in> set order then Some (f (xs ! i)) else slots ! i))"
proof (induction order arbitrary: slots)
  case Nil
  then show ?case by simp
next
  case (Cons j order)
  have len: "length (finish_task f xs slots j) = length xs"
    using Cons.prems by (simp add: finish_task_length)
  have step: "\<forall>i < length xs. finish_task f xs slots j ! i =
      (if i = j then Some (f (xs ! i)) else slots ! i)"
    using Cons.prems by (auto simp: finish_task_def nth_list_update)
  from Cons.IH [OF len] step show ?case
    by auto
qed

lemma run_pool_all_done:
  assumes "set order = {0..<length xs}"
  shows "run_pool order f xs = map (\<lambda>x. Some (f x)) xs"
proof (rule nth_equalityI)
  show "length (run_pool order f xs) = length (map (\<lambda>x. Some (f x)) xs)"
    using run_pool_slots [of "replicate (length xs) None" xs f order]
    by (simp add: run_pool_def)
next
  fix i
  assume "i < length (run_pool order f xs)"
  then have i: "i < length xs"
    using run_pool_slots [of "replicate (length xs) None" xs f order]
    by (simp add: run_pool_def)
  then have "i \<in> set order"
    using assms by simp
  then show "run_pool order f xs ! i = map (\<lambda>x. Some (f x)) xs ! i"
    using run_pool_slots [of "replicate (length xs) None" xs f order] i
    by (simp add: run_pool_def)
qed

lemma gather_all_done: "gather (map (\<lambda>x. Some (f x)) xs) = Some (executor_map f xs)"
  by (induction xs) (auto split: sum.splits)

lemma pool_map_executor_map:
  "set order = {0..<length xs} \<Longrightarrow> pool_map order f xs = Some (executor_map f xs)"
  by (simp add: pool_map_def run_pool_all_done gather_all_done)

lemma executor_map_returns:
  "\<forall>x \<in> set xs. f x = Inr (g x) \<Longrightarrow> executor_map f xs = Inr (map g xs)"
  by (induction xs) auto

lemma executor_map_Inr:
  "executor_map f xs = Inr vs \<Longrightarrow> map f xs = map Inr vs"
  by (induction xs arbitrary: vs) (auto split: sum.splits)

lemma executor_map_raises:
  "x \<in> set xs \<Longrightarrow> f x = Inl e \<Longrightarrow> \<exists>e'. executor_map f xs = Inl e'"
  by (induction xs) (auto split: sum.splits)

text \<open>
  C1 (as the code has it). Whatever the order in which the pool's tasks finish, when
  every call returns, the retrieval returns a sequence as long as the input whose
  i-th element is the result of the call on the i-th identifier; an absent result
  (\<open>None\<close>) is such a result and keeps its position.
\<close>

theorem retrieval_keeps_input_order:
  assumes "set order = {0..<length L}"
    and "\<forall>x \<in> set L. \<exists>v. f x = Inr v"
  shows "\<exists>rs. pool_map order f L = Some (Inr rs) \<and> length rs = length L \<and>
           (\<forall>i < length L. f (L ! i) = Inr (rs ! i))"
proof -
  have "\<forall>x \<in> set L. f x = Inr (projr (f x))"
    using assms(2) by auto
  then have "executor_map f L = Inr (map (\<lambda>x. projr (f x)) L)"
    by (rule executor_map_returns)
  then have "pool_map order f L = Some (Inr (map (\<lambda>x. projr (f x)) L))"
    using assms(1) by (simp add: pool_map_executor_map)
  moreover have "\<forall>i < length L. f (L ! i) = Inr (map (\<lambda>x. projr (f x)) L ! i)"
    using \<open>\<forall>x \<in> set L. f x = Inr (projr (f x))\<close> by simp
  ultimately show ?thesis
    by auto
qed

theorem retrieval_keeps_input_order_witness:
  "pool_map [2, 0, 1] (fetch_story_details api_second_absent) [JInt 1, JInt 2, JInt 3]
     = Some (Inr [JObj [(''id'', JInt 1)], JNull, JObj [(''id'', JInt 3)]])"
proof -
  have order: "set [2, 0, 1] = {0..<length [JInt 1, JInt 2, JInt 3]}"
    by auto
  have returns: "\<forall>x \<in> set [JInt 1, JInt 2, JInt 3].
      \<exists>v. fetch_story_details api_second_absent x = Inr v"
    by (simp add: fetch_story_details_def request_json_def response_json_def api_second_absent_def)
  from retrieval_keeps_input_order [OF order returns]
  obtain rs where rs: "pool_map [2, 0, 1] (fetch_story_details api_second_absent)
        [JInt 1, JInt 2, JInt 3] = Some (Inr rs)"
      "length rs = 3"
      "\<forall>i < 3. fetch_story_details api_second_absent ([JInt 1, JInt 2, JInt 3] ! i) = Inr (rs ! i)"
    by auto
  from rs(3) [rule_format, of 0] rs(3) [rule_format, of 1] rs(3) [rule_format, of 2]
  have "rs ! 0 = JObj [(''id'', JInt 1)]" "rs ! 1 = JNull"
      "rs ! 2 = JObj [(''id'', JInt 3)]"
    by (simp_all add: fetch_story_details_def request_json_def response_json_def api_second_absent_def)
  with rs(2) have "rs = [JObj [(''id'', JInt 1)], JNull, JObj [(''id'', JInt 3)]]"
    by (intro nth_equalityI) (auto simp: less_Suc_eq numeral_3_eq_3 numeral_2_eq_2)
  with rs(1) show ?thesis by simp
qed

text \<open>
  C1, as stated, fails: a fetch that raises is no placeholder. The retrieval of two
  identifiers, the second of which has an undecodable body, raises.
\<close>

theorem retrieval_raises_counterexample:
  "pool_map [1, 0] (fetch_story_details api_second_undecodable) [JInt 1, JInt 2]
     = Some (Inl JSONDecodeError)"
  by (simp add: pool_map_def run_pool_def finish_task_def fetch_story_details_def
      request_json_def response_json_def api_second_undecodable_def)

text \<open>
  C2 (as the code has it). A fetch returns the decoded body: for the body \<open>null\<close> the
  absent result, which the story builder skips. A body that does not decode and a
  failed connection raise, in either fetcher, and the story builder raises with them.
\<close>

theorem fetch_absent_or_raises:
  assumes "api i = Decoded JNull" and "api j = Undecodable" and "api k = Unreachable"
  shows "fetch_story_details api i = Inr JNull \<and> fetch_comment_details api i = Inr JNull
       \<and> Retrieving_data_about_articles api [i] 1 = Inr []
       \<and> fetch_story_details api j = Inl JSONDecodeError
       \<and> fetch_comment_details api j = Inl JSONDecodeError
       \<and> Retrieving_data_about_articles api [i, j] 2 = Inl JSONDecodeError
       \<and> fetch_story_details api k = Inl ConnectionError
       \<and> fetch_comment_details api k = Inl ConnectionError
       \<and> Retrieving_data_about_articles api [i, k] 2 = Inl ConnectionError"
  using assms
  by (simp add: fetch_story_details_def fetch_comment_details_def request_json_def response_json_def
      Retrieving_data_about_articles_def py_slice_to_def on_return_def)

theorem fetch_absent_or_raises_witness:
  "api_mixed (JInt 3) = Decoded JNull \<and> api_mixed (JInt 2) = Undecodable
     \<and> api_mixed (JInt 4) = Unreachable
     \<and> fetch_story_details api_mixed (JInt 3) = Inr JNull
     \<and> fetch_comment_details api_mixed (JInt 2) = Inl JSONDecodeError
     \<and> Retrieving_data_about_articles api_mixed [JInt 3, JInt 2] 2 = Inl JSONDecodeError
     \<and> Retrieving_data_about_articles api_mixed [JInt 3, JInt 4] 2 = Inl ConnectionError"
proof -
  have h: "api_mixed (JInt 3) = Decoded JNull" "api_mixed (JInt 2) = Undecodable"
      "api_mixed (JInt 4) = Unreachable"
    by (simp_all add: api_mixed_def)
  from fetch_absent_or_raises [OF h] h show ?thesis
    by simp
qed

text \<open>
  C2, as stated, fails: on a body that is not JSON both fetchers raise.
\<close>

theorem fetch_raises_counterexample:
  "fetch_story_details api_mixed (JInt 2) = Inl JSONDecodeError
     \<and> fetch_comment_details api_mixed (JInt 2) = Inl JSONDecodeError"
  by (simp add: fetch_story_details_def fetch_comment_details_def request_json_def response_json_def
      api_mixed_def)

section \<open>Story table builder: results\<close>

lemma py_slice_to_length: "length (py_slice_to xs n) \<le> length xs"
  unfolding py_slice_to_def by (cases "0 \<le> n") (simp_all add: min_def)

lemma py_slice_to_bound: "0 \<le> n \<Longrightarrow> int (length (py_slice_to xs n)) \<le> n"
  by (simp add: py_slice_to_def)

lemma executor_map_length: "executor_map f xs = Inr vs \<Longrightarrow> length vs = length xs"
  by (induction xs arbitrary: vs) (auto split: sum.splits)

lemma executor_map_results:
  "executor_map f xs = Inr vs \<Longrightarrow> v \<in> set vs \<Longrightarrow> \<exists>x \<in> set xs. f x = Inr v"
  by (induction xs arbitrary: vs) (auto split: sum.splits)

lemma append_stories_length:
  "append_stories ds = Inr recs \<Longrightarrow> length recs = length (filter truthy ds)"
  by (induction ds arbitrary: recs) (auto split: sum.splits if_splits)

lemma append_stories_origin:
  "append_stories ds = Inr recs \<Longrightarrow> r \<in> set recs \<Longrightarrow>
   \<exists>d \<in> set ds. truthy d \<and> story_record d = Inr r"
  by (induction ds arbitrary: recs) (auto split: sum.splits if_splits)

lemma story_record_fields:
  assumes "story_record d = Inr r"
  shows "\<exists>kvs. d = JObj kvs \<and> s_id r = dict_get kvs ''id'' JNull
      \<and> s_descendants r = dict_get kvs ''descendants'' (JInt 0)
      \<and> py_len (dict_get kvs ''kids'' (JList [])) = Inr (s_comments_count r)"
  using assms
  by (cases d) (auto simp: story_record_def on_return_def split: sum.splits)

text \<open>
  C5 (as the code has it). When the builder returns: it returns no more records than
  \<open>ids[:limit]\<close> has identifiers, hence at most \<open>limit\<close> when \<open>limit\<close> is not negative;
  it returns one record per fetched body that is not absent or empty; every record
  is built from the body fetched for an identifier of \<open>ids[:limit]\<close>, its identifier
  is that body's \<open>id\<close> field (the requested identifier when the API echoes it), its
  descendants are 0 when the body has none, and its comment-count is the length of
  the body's \<open>kids\<close> list, 0 when the body has none.
\<close>

theorem story_table_bounds:
  assumes "Retrieving_data_about_articles api ids limit = Inr recs"
  shows "length recs \<le> length (py_slice_to ids limit)
       \<and> (0 \<le> limit \<longrightarrow> int (length recs) \<le> limit)
       \<and> (\<exists>bodies. map (fetch_story_details api) (py_slice_to ids limit) = map Inr bodies
             \<and> length recs = length (filter truthy bodies))
       \<and> (\<forall>r \<in> set recs. \<exists>i \<in> set (py_slice_to ids limit). \<exists>kvs.
             api i = Decoded (JObj kvs)
           \<and> s_id r = dict_get kvs ''id'' JNull
           \<and> (map_of kvs ''descendants'' = None \<longrightarrow> s_descendants r = JInt 0)
           \<and> (map_of kvs ''kids'' = None \<longrightarrow> s_comments_count r = 0)
           \<and> (\<forall>ks. map_of kvs ''kids'' = Some (JList ks) \<longrightarrow> s_comments_count r = length ks))
       \<and> ((\<forall>i kvs. api i = Decoded (JObj kvs) \<longrightarrow> map_of kvs ''id'' = Some i)
            \<longrightarrow> (\<forall>r \<in> set recs. s_id r \<in> set (py_slice_to ids limit)))"
proof -
  from assms obtain bodies where
    fetched: "executor_map (fetch_story_details api) (py_slice_to ids limit) = Inr bodies"
    and built: "append_stories bodies = Inr recs"
    by (auto simp: Retrieving_data_about_articles_def on_return_def split: sum.splits)
  have len_bodies: "length bodies = length (py_slice_to ids limit)"
    using fetched by (rule executor_map_length)
  have len_recs: "length recs = length (filter truthy bodies)"
    using built by (rule append_stories_length)
  have bound: "length recs \<le> length (py_slice_to ids limit)"
    using len_recs len_bodies length_filter_le [of truthy bodies] by simp
  have limit: "0 \<le> limit \<longrightarrow> int (length recs) \<le> limit"
    using bound py_slice_to_bound [of limit ids] by auto
  have dropped: "\<exists>bodies. map (fetch_story_details api) (py_slice_to ids limit) = map Inr bodies
      \<and> length recs = length (filter truthy bodies)"
    using executor_map_Inr [OF fetched] len_recs by blast
  have origin: "\<exists>i \<in> set (py_slice_to ids limit). \<exists>kvs.
             api i = Decoded (JObj kvs)
           \<and> s_id r = dict_get kvs ''id'' JNull
           \<and> (map_of kvs ''descendants'' = None \<longrightarrow> s_descendants r = JInt 0)
           \<and> (map_of kvs ''kids'' = None \<longrightarrow> s_comments_count r = 0)
           \<and> (\<forall>ks. map_of kvs ''kids'' = Some (JList ks) \<longrightarrow> s_comments_count r = length ks)"
    if r: "r \<in> set recs" for r
  proof -
    from append_stories_origin [OF built r] obtain d where
      d: "d \<in> set bodies" "story_record d = Inr r"
      by blast
    from story_record_fields [OF d(2)] obtain kvs where
      kvs: "d = JObj kvs" "s_id r = dict_get kvs ''id'' JNull"
        "s_descendants r = dict_get kvs ''descendants'' (JInt 0)"
        "py_len (dict_get kvs ''kids'' (JList [])) = Inr (s_comments_count r)"
      by blast
    from executor_map_results [OF fetched d(1)] obtain i where
      i: "i \<in> set (py_slice_to ids limit)" "fetch_story_details api i = Inr d"
      by blast
    from i(2) have "api i = Decoded (JObj kvs)"
      by (simp add: fetch_story_details_def request_json_def response_json_def kvs(1) split: response.splits)
    moreover have "map_of kvs ''descendants'' = None \<longrightarrow> s_descendants r = JInt 0"
      using kvs(3) by (simp add: dict_get_def)
    moreover have "map_of kvs ''kids'' = None \<longrightarrow> s_comments_count r = 0"
      using kvs(4) by (auto simp: dict_get_def)
    moreover have "\<forall>ks. map_of kvs ''kids'' = Some (JList ks) \<longrightarrow> s_comments_count r = length ks"
      using kvs(4) by (auto simp: dict_get_def)
    ultimately show ?thesis
      using i(1) kvs(2) by (intro bexI [of _ i] exI [of _ kvs]) simp_all
  qed
  have echoed: "(\<forall>i kvs. api i = Decoded (JObj kvs) \<longrightarrow> map_of kvs ''id'' = Some i)
            \<longrightarrow> (\<forall>r \<in> set recs. s_id r \<in> set (py_slice_to ids limit))"
  proof (intro impI ballI)
    fix r
    assume echo: "\<forall>i kvs. api i = Decoded (JObj kvs) \<longrightarrow> map_of kvs ''id'' = Some i"
      and r: "r \<in> set recs"
    from origin [OF r] obtain i kvs where
      "i \<in> set (py_slice_to ids limit)" "api i = Decoded (JObj kvs)"
      "s_id r = dict_get kvs ''id'' JNull"
      by blast
    with echo show "s_id r \<in> set (py_slice_to ids limit)"
      by (simp add: dict_get_def)
  qed
  from bound limit dropped origin echoed show ?thesis
    by blast
qed

lemma api_demo_echoes:
  "\<forall>i kvs. api_demo i = Decoded (JObj kvs) \<longrightarrow> map_of kvs ''id'' = Some i"
  by (auto simp: api_demo_def split: if_splits)

lemma demo_story_table:
  "Retrieving_data_about_articles api_demo [JInt 1, JInt 2, JInt 3, JInt 4] 3
     = Inr [demo_story_1, demo_story_3]"
  by (simp add: Retrieving_data_about_articles_def py_slice_to_def on_return_def
      fetch_story_details_def request_json_def response_json_def api_demo_def story_record_def dict_get_def
      demo_story_1_def demo_story_3_def)

theorem story_table_bounds_witness:
  "Retrieving_data_about_articles api_demo [JInt 1, JInt 2, JInt 3, JInt 4] 3
     = Inr [demo_story_1, demo_story_3]
   \<and> length [demo_story_1, demo_story_3] \<le> length (py_slice_to [JInt 1, JInt 2, JInt 3, JInt 4] 3)
   \<and> int (length [demo_story_1, demo_story_3]) \<le> 3
   \<and> s_id demo_story_1 \<in> set (py_slice_to [JInt 1, JInt 2, JInt 3, JInt 4] 3)
   \<and> s_id demo_story_3 \<in> set (py_slice_to [JInt 1, JInt 2, JInt 3, JInt 4] 3)"
  using story_table_bounds [OF demo_story_table] demo_story_table api_demo_echoes
  by simp

text \<open>
  C5, as stated, fails twice. With the limit -1 the slice \<open>ids[:-1]\<close> drops the last
  identifier only, and the builder returns one record, more than the limit. And a
  body without an \<open>id\<close> field (the error body of the API) gives a record whose
  identifier is \<open>None\<close>, which is not among the identifiers asked for.
\<close>

theorem story_table_counterexample:
  "Retrieving_data_about_articles api_demo [JInt 1, JInt 2, JInt 3] (- 1) = Inr [demo_story_1]
   \<and> \<not> int (length [demo_story_1]) \<le> - 1
   \<and> Retrieving_data_about_articles api_error_body [JInt 1] 1
       = Inr [\<lparr> s_id = JNull, s_title = JNull, s_url = JNull, s_score = JNull,
                s_author = JNull, s_time = JNull, s_comments_count = 0, s_type = JNull,
                s_descendants = JInt 0 \<rparr>]
   \<and> JNull \<notin> set (py_slice_to [JInt 1] 1)"
  by (simp add: Retrieving_data_about_articles_def py_slice_to_def on_return_def
      fetch_story_details_def request_json_def response_json_def api_demo_def api_error_body_def
      story_record_def dict_get_def demo_story_1_def)

section \<open>Comment table builder: results\<close>

lemma append_comments_parent:
  "append_comments story_id ds = Inr cs \<Longrightarrow> c \<in> set cs \<Longrightarrow> c_parent_story c = story_id"
proof (induction ds arbitrary: cs)
  case Nil
  then show ?case by simp
next
  case (Cons d ds)
  show ?case
  proof (cases "truthy d")
    case False
    with Cons show ?thesis by simp
  next
    case True
    with Cons.prems(1) obtain c' cs' where
      parts: "comment_record story_id d = Inr c'" "append_comments story_id ds = Inr cs'"
        "cs = c' # cs'"
      by (auto split: sum.splits)
    from parts(1) have "c_parent_story c' = story_id"
      by (cases d) (auto simp: comment_record_def)
    with Cons.IH [OF parts(2)] Cons.prems(2) parts(3) show ?thesis
      by auto
  qed
qed

lemma on_return_Inr_iff: "on_return m k = Inr v \<longleftrightarrow> (\<exists>a. m = Inr a \<and> k a = Inr v)"
  by (cases m) (simp_all add: on_return_def)

lemma story_comments_cases:
  assumes "story_comments api story_id = Inr cs"
  shows "cs = [] \<or> (\<exists>comment_details_list. append_comments story_id comment_details_list = Inr cs)"
proof -
  from assms obtain d where
    d: "(if truthy d then
           on_return (py_contains_kids d) (\<lambda>has_kids.
             if has_kids then
               on_return (py_subscript_kids d) (\<lambda>comment_ids.
                 on_return (py_iter comment_ids) (\<lambda>ids.
                   on_return (executor_map (fetch_comment_details api) ids)
                     (append_comments story_id)))
             else Inr [])
         else Inr []) = Inr cs"
    unfolding story_comments_def on_return_Inr_iff by blast
  show ?thesis
  proof (cases "truthy d")
    case False
    with d show ?thesis by simp
  next
    case True
    with d obtain has_kids where
      h: "(if has_kids then
             on_return (py_subscript_kids d) (\<lambda>comment_ids.
               on_return (py_iter comment_ids) (\<lambda>ids.
                 on_return (executor_map (fetch_comment_details api) ids)
                   (append_comments story_id)))
           else Inr []) = Inr cs"
      by (auto simp: on_return_Inr_iff)
    show ?thesis
    proof (cases has_kids)
      case False
      with h show ?thesis by simp
    next
      case True
      with h obtain l where "append_comments story_id l = Inr cs"
        by (auto simp: on_return_Inr_iff)
      then show ?thesis by blast
    qed
  qed
qed

lemma story_comments_parent:
  assumes "story_comments api story_id = Inr cs" and "c \<in> set cs"
  shows "c_parent_story c = story_id"
  using story_comments_cases [OF assms(1)] assms(2)
  by (auto dest: append_comments_parent)

lemma story_comments_no_kids:
  "api story_id = Decoded (JObj kvs) \<Longrightarrow> ''kids'' \<notin> fst ` set kvs \<Longrightarrow>
   story_comments api story_id = Inr []"
  by (simp add: story_comments_def request_json_def response_json_def on_return_def)

lemma Fetching_responses_concat:
  "Fetching_responses_to_top_stories api stories = Inr comments \<Longrightarrow>
   \<exists>css. map (\<lambda>s. story_comments api (s_id s)) stories = map Inr css \<and> comments = concat css"
proof (induction stories arbitrary: comments)
  case Nil
  then show ?case by simp
next
  case (Cons story rest)
  from Cons.prems obtain cs others where
    parts: "story_comments api (s_id story) = Inr cs"
      "Fetching_responses_to_top_stories api rest = Inr others" "comments = cs @ others"
    by (auto split: sum.splits)
  from Cons.IH [OF parts(2)] obtain css where
    "map (\<lambda>s. story_comments api (s_id s)) rest = map Inr css" "others = concat css"
    by blast
  with parts(1,3) have
    "map (\<lambda>s. story_comments api (s_id s)) (story # rest) = map Inr (cs # css)
     \<and> comments = concat (cs # css)"
    by simp
  then show ?case by blast
qed

text \<open>
  C6. When the comment builder returns, its table is the per-story comment lists in
  story order; every comment of the list of a story carries that story's identifier
  as parent-story, so every parent-story is an identifier of the story table passed
  in; and a story whose fetched record has no \<open>kids\<close> field contributes no comment.
\<close>

theorem comment_parent_in_story_table:
  assumes "Fetching_responses_to_top_stories api stories = Inr comments"
  shows "(\<forall>c \<in> set comments. c_parent_story c \<in> s_id ` set stories)
       \<and> (\<exists>css. map (\<lambda>s. story_comments api (s_id s)) stories = map Inr css
              \<and> comments = concat css
              \<and> (\<forall>n < length stories. \<forall>c \<in> set (css ! n).
                    c_parent_story c = s_id (stories ! n)))
       \<and> (\<forall>s \<in> set stories. \<forall>kvs.
              api (s_id s) = Decoded (JObj kvs) \<and> ''kids'' \<notin> fst ` set kvs
              \<longrightarrow> story_comments api (s_id s) = Inr [])"
proof -
  from Fetching_responses_concat [OF assms] obtain css where
    css: "map (\<lambda>s. story_comments api (s_id s)) stories = map Inr css"
      "comments = concat css"
    by blast
  from css(1) have len: "length css = length stories"
    by (metis length_map)
  have per_story: "c_parent_story c = s_id (stories ! n)"
    if "n < length stories" "c \<in> set (css ! n)" for n c
  proof -
    from css(1) that(1) len have "story_comments api (s_id (stories ! n)) = Inr (css ! n)"
      by (metis nth_map)
    then show ?thesis
      using that(2) by (rule story_comments_parent)
  qed
  have members: "c_parent_story c \<in> s_id ` set stories" if "c \<in> set comments" for c
  proof -
    from that css(2) obtain cs where "cs \<in> set css" "c \<in> set cs"
      by auto
    then obtain n where "n < length css" "css ! n = cs"
      by (auto simp: in_set_conv_nth)
    with per_story [of n c] len \<open>c \<in> set cs\<close> show ?thesis
      by auto
  qed
  from members css per_story story_comments_no_kids show ?thesis
    by blast
qed

lemma demo_comment_table:
  "Fetching_responses_to_top_stories api_demo [demo_story_1, demo_story_3]
     = Inr [demo_comment_11]"
  by (simp add: story_comments_def request_json_def response_json_def on_return_def fetch_comment_details_def
      api_demo_def comment_record_def dict_get_def demo_story_1_def demo_story_3_def
      demo_comment_11_def)

theorem comment_parent_in_story_table_witness:
  "Fetching_responses_to_top_stories api_demo [demo_story_1, demo_story_3]
     = Inr [demo_comment_11]
   \<and> c_parent_story demo_comment_11 \<in> s_id ` set [demo_story_1, demo_story_3]
   \<and> c_parent_story demo_comment_11 = s_id demo_story_1
   \<and> story_comments api_demo (s_id demo_story_3) = Inr []"
proof -
  have no_kids: "api_demo (s_id demo_story_3)
      = Decoded (JObj [(''id'', JInt 3), (''title'', JStr ''Show HN''),
                       (''url'', JStr ''http://x''), (''score'', JInt 30),
                       (''by'', JStr ''dang''), (''time'', JInt 1700003600),
                       (''type'', JStr ''story''), (''descendants'', JInt 7)])
      \<and> ''kids'' \<notin> fst ` set [(''id'', JInt 3), (''title'', JStr ''Show HN''),
                       (''url'', JStr ''http://x''), (''score'', JInt 30),
                       (''by'', JStr ''dang''), (''time'', JInt 1700003600),
                       (''type'', JStr ''story''), (''descendants'', JInt 7)]"
    by (simp add: api_demo_def demo_story_3_def)
  from comment_parent_in_story_table [OF demo_comment_table] no_kids
  have "c_parent_story demo_comment_11 \<in> s_id ` set [demo_story_1, demo_story_3]"
    and "story_comments api_demo (s_id demo_story_3) = Inr []"
    by (simp, fastforce)
  moreover have "c_parent_story demo_comment_11 = s_id demo_story_1"
    by (simp add: demo_comment_11_def demo_story_1_def)
  ultimately show ?thesis
    using demo_comment_table by simp
qed

section \<open>Analysis steps: results\<close>

lemma position_member: "x \<in> set xs \<Longrightarrow> \<exists>i. position x xs = Some i"
  by (induction xs) auto

lemma link_percentages_value:
  assumes "''url'' \<in> set (df_columns df)"
  shows "\<exists>e. 0 \<le> e \<and> e \<le> int (length (df_rows df)) \<and>
           link_percentages df =
             Inr (times_100 (np_true_divide e (int (length (df_rows df)))),
                  times_100 (np_true_divide (int (length (df_rows df)) - e)
                               (int (length (df_rows df)))))"
proof -
  from position_member [OF assms] obtain i where
    i: "position ''url'' (df_columns df) = Some i"
    by blast
  define url where "url = map (\<lambda>row. if i < length row then row ! i else NaN) (df_rows df)"
  have col: "column df ''url'' = Inr url"
    by (simp add: column_def i url_def)
  have "length (filter notna url) \<le> length (df_rows df)"
    using length_filter_le [of notna url] by (simp add: url_def)
  then have "int (length (filter notna url)) \<le> int (length (df_rows df))"
    by simp
  moreover have "link_percentages df =
      Inr (times_100 (np_true_divide (int (length (filter notna url)))
                        (int (length (df_rows df)))),
           times_100 (np_true_divide (int (length (df_rows df)) - int (length (filter notna url)))
                        (int (length (df_rows df)))))"
    by (simp add: link_percentages_def col on_return_def Let_def)
  ultimately show ?thesis
    by (intro exI [of _ "int (length (filter notna url))"]) simp
qed

text \<open>
  C7. For a story table with at least one row (and a \<open>url\<close> column), both
  percentages are finite and, in exact arithmetic, add up to 100.
\<close>

theorem link_percentages_sum:
  assumes "df_rows df \<noteq> []" and "''url'' \<in> set (df_columns df)"
  shows "\<exists>a b. link_percentages df = Inr (FNum a, FNum b) \<and> a + b = 100"
proof -
  from link_percentages_value [OF assms(2)] obtain e where
    e: "link_percentages df =
          Inr (times_100 (np_true_divide e (int (length (df_rows df)))),
               times_100 (np_true_divide (int (length (df_rows df)) - e)
                            (int (length (df_rows df)))))"
    by blast
  define n where "n = int (length (df_rows df))"
  have n: "n \<noteq> 0"
    using assms(1) by (simp add: n_def)
  have "link_percentages df =
      Inr (FNum (real_of_int e / real_of_int n * 100),
           FNum (real_of_int (n - e) / real_of_int n * 100))"
    using e n by (simp add: np_true_divide_def n_def)
  moreover have "real_of_int e / real_of_int n * 100 + real_of_int (n - e) / real_of_int n * 100
      = 100"
    using n by (simp add: field_simps)
  ultimately show ?thesis
    by blast
qed

theorem link_percentages_sum_witness:
  "df_rows demo_stories_df \<noteq> [] \<and> ''url'' \<in> set (df_columns demo_stories_df)
   \<and> (\<exists>a b. link_percentages demo_stories_df = Inr (FNum a, FNum b) \<and> a + b = 100)
   \<and> link_percentages demo_stories_df = Inr (FNum 50, FNum 50)"
proof -
  have rows: "df_rows demo_stories_df \<noteq> []"
    by (simp add: demo_stories_df_def)
  have url: "''url'' \<in> set (df_columns demo_stories_df)"
    by (simp add: demo_stories_df_def story_fieldnames_def)
  have "link_percentages demo_stories_df = Inr (FNum 50, FNum 50)"
    by (simp add: link_percentages_def column_def demo_stories_df_def story_fieldnames_def
        on_return_def notna_def np_true_divide_def)
  with link_percentages_sum [OF rows url] rows url show ?thesis
    by blast
qed

lemma link_distribution_chart_empty:
  assumes "df_rows df = []" and "''url'' \<in> set (df_columns df)"
  shows "link_percentages df = Inr (FNan, FNan) \<and> link_distribution_chart df = Inl ValueError"
proof -
  from link_percentages_value [OF assms(2)] obtain e where
    "0 \<le> e" "e \<le> int (length (df_rows df))"
    and e: "link_percentages df =
          Inr (times_100 (np_true_divide e (int (length (df_rows df)))),
               times_100 (np_true_divide (int (length (df_rows df)) - e)
                            (int (length (df_rows df)))))"
    by blast
  with assms(1) have "e = 0"
    by simp
  with e assms(1) have percentages: "link_percentages df = Inr (FNan, FNan)"
    by (simp add: np_true_divide_def)
  from position_member [OF assms(2)] obtain i where
    "position ''url'' (df_columns df) = Some i"
    by blast
  with assms(1) have "column df ''url'' = Inr []"
    by (simp add: column_def)
  with percentages assms(1) have "link_distribution_chart df = Inl ValueError"
    by (simp add: link_distribution_chart_def on_return_def plt_pie_def)
  with percentages show ?thesis
    by simp
qed

text \<open>
  C3 (as the code has it). For a story table with no row the analysis does fail, but
  not at the percentage computations: both are the numpy division 0/0 and evaluate
  to \<open>nan\<close> without raising. The failure is the ValueError of the pie chart drawn from
  the two zero counts on the next line, unless an earlier line has already raised;
  either way the analysis stops before it writes its metrics.
\<close>

theorem empty_story_table_fails_at_chart:
  assumes "df_rows df = []" and "''url'' \<in> set (df_columns df)"
  shows "link_percentages df = Inr (FNan, FNan)
       \<and> link_distribution_chart df = Inl ValueError
       \<and> analysis_through_link_chart (Inr ()) df = Inl ValueError
       \<and> (\<exists>e. analysis_through_link_chart earlier df = Inl e)"
proof -
  from link_distribution_chart_empty [OF assms]
  have chart: "link_percentages df = Inr (FNan, FNan)"
      "link_distribution_chart df = Inl ValueError"
    by simp_all
  then have "analysis_through_link_chart (Inr ()) df = Inl ValueError"
    by (simp add: analysis_through_link_chart_def on_return_def)
  moreover have "\<exists>e. analysis_through_link_chart earlier df = Inl e"
    using chart(2) by (cases earlier) (simp_all add: analysis_through_link_chart_def on_return_def)
  ultimately show ?thesis
    using chart by simp
qed

theorem empty_story_table_fails_at_chart_witness:
  "df_rows \<lparr> df_columns = story_fieldnames, df_rows = [] \<rparr> = []
   \<and> ''url'' \<in> set (df_columns \<lparr> df_columns = story_fieldnames, df_rows = [] \<rparr>)
   \<and> link_percentages \<lparr> df_columns = story_fieldnames, df_rows = [] \<rparr> = Inr (FNan, FNan)
   \<and> analysis_through_link_chart (Inr ()) \<lparr> df_columns = story_fieldnames, df_rows = [] \<rparr>
       = Inl ValueError"
proof -
  have rows: "df_rows \<lparr> df_columns = story_fieldnames, df_rows = [] \<rparr> = []"
    by simp
  have url: "''url'' \<in> set (df_columns \<lparr> df_columns = story_fieldnames, df_rows = [] \<rparr>)"
    by (simp add: story_fieldnames_def)
  from empty_story_table_fails_at_chart [OF rows url] rows url show ?thesis
    by simp
qed

text \<open>
  C3, as stated, fails in where it puts the failure: the story file of a run with no
  story holds the header only; read back, its two percentage computations raise
  nothing and give the pair of \<open>nan\<close>, and it is the chart that raises.
\<close>

theorem empty_story_table_counterexample:
  "on_return (parse_csv no_other_dtype [story_fieldnames]) link_percentages = Inr (FNan, FNan)
   \<and> on_return (parse_csv no_other_dtype [story_fieldnames]) link_distribution_chart
       = Inl ValueError"
  by (simp add: parse_csv_def read_table_def on_return_def link_percentages_def
      link_distribution_chart_def column_def story_fieldnames_def np_true_divide_def
      plt_pie_def)

text \<open>
  C8. The label of a comment is Positive exactly when its score is above zero,
  Negative exactly when it is below, Neutral exactly when it is zero.
\<close>

theorem sentiment_label_sign:
  "(sentiment_label (sentiment compound x) = Positive \<longleftrightarrow> sentiment compound x > 0)
   \<and> (sentiment_label (sentiment compound x) = Negative \<longleftrightarrow> sentiment compound x < 0)
   \<and> (sentiment_label (sentiment compound x) = Neutral \<longleftrightarrow> sentiment compound x = 0)"
  by (simp add: sentiment_label_def)

section \<open>Tables read back: results\<close>






lemma parse_csv_written:
  assumes "h \<noteq> []" and "\<forall>l \<in> set ls. length l = length h"
  shows "parse_csv other_dtype (h # ls)
       = Inr \<lparr> df_columns = h,
               df_rows = read_table other_dtype (length h) (map (map mark) ls) \<rparr>"
proof -
  have "\<forall>l \<in> set ls. l \<noteq> []"
    using assms by auto
  then have kept: "filter (\<lambda>l. l \<noteq> []) ls = ls"
    by (simp add: filter_id_conv)
  have index: "(case ls of [] \<Rightarrow> 0
      | first # x \<Rightarrow> if length h < length first then length first - length h else 0) = 0"
    using assms(2) by (cases ls) simp_all
  have fits: "\<not> list_ex (\<lambda>line. length h < length line) ls"
    using assms(2) by (simp add: list_ex_iff)
  have padded: "map (\<lambda>line. map mark line @ replicate (length h - length line) None) ls
      = map (map mark) ls"
    using assms(2) by (intro map_cong) simp_all
  show ?thesis
    using assms(1) by (simp add: parse_csv_def Let_def kept index fits padded)
qed

















lemma read_column_text:
  "kept_as_text other_dtype tokens \<Longrightarrow> read_column other_dtype tokens = map text_cell tokens"
  by (simp add: read_column_def kept_as_text_def)

lemma read_column_text_cell:
  assumes "kept_as_text other_dtype (map mark texts)" and "i < length texts"
  shows "read_column other_dtype (map mark texts) ! i
       = (if texts ! i \<in> set na_values then NaN else Text (texts ! i))"
  using assms by (simp add: read_column_text mark_def)

lemma written_story_table:
  "read_csv other_dtype (Saving_data_in_a_csv_file py_repr fs stories path name)
       (path @ name @ ''.csv'')
     = Inr \<lparr> df_columns = story_fieldnames,
             df_rows = read_table other_dtype (length story_fieldnames)
                         (map (\<lambda>s. map mark (story_row py_repr s)) stories) \<rparr>"
proof -
  have "parse_csv other_dtype (story_fieldnames # map (story_row py_repr) stories)
     = Inr \<lparr> df_columns = story_fieldnames,
             df_rows = read_table other_dtype (length story_fieldnames)
                         (map (map mark) (map (story_row py_repr) stories)) \<rparr>"
    by (rule parse_csv_written) (simp_all add: story_fieldnames_def story_row_def)
  then show ?thesis
    by (simp add: read_csv_def Saving_data_in_a_csv_file_def comp_def)
qed












section \<open>Persistence round trip: results\<close>







section \<open>Orchestrator: results\<close>

lemma run_after_builders:
  assumes "on_return (on_return (response_json top_list) top_stories_sequence)
             (\<lambda>top_stories_ids_array.
                Retrieving_data_about_articles api top_stories_ids_array num_of_stories)
           = Inr articles_data"
    and "Fetching_responses_to_top_stories api articles_data = Inr comments_data"
  shows "Data_collection_and_analysis_from_Hacker_News py_repr other_dtype top_list api fs
           num_of_stories
     = (let fs1 = Saving_data_in_a_csv_file py_repr fs articles_data [] ''top_stories'';
            fs2 = (if comments_data \<noteq> []
                   then Saving_comments_data_in_a_csv_file py_repr fs1 comments_data
                   else fs1)
        in (fs2,
            on_return (read_csv other_dtype fs2 ''top_stories.csv'') (\<lambda>stories_df.
              on_return (read_csv other_dtype fs2 ''comments.csv'') (\<lambda>comments_df.
                Inr (stories_df, comments_df)))))"
  using assms
  by (simp add: Data_collection_and_analysis_from_Hacker_News_def Let_def)

text \<open>
  C10. In a run whose comment builder returns the empty list, the comment file is
  left as it was before the run. With no such file the run stops at the reload with
  FileNotFoundError; with one, the comment table handed to the analysis is whatever
  that earlier file holds, next to the story table of this run.
\<close>

theorem stale_comment_file_reloaded:
  assumes "on_return (on_return (response_json top_list) top_stories_sequence)
             (\<lambda>top_stories_ids_array.
                Retrieving_data_about_articles api top_stories_ids_array num_of_stories)
           = Inr articles_data"
    and "Fetching_responses_to_top_stories api articles_data = Inr []"
  shows "fst (Data_collection_and_analysis_from_Hacker_News py_repr other_dtype top_list api fs
                num_of_stories) ''comments.csv'' = fs ''comments.csv''
       \<and> (fs ''comments.csv'' = None \<longrightarrow>
            snd (Data_collection_and_analysis_from_Hacker_News py_repr other_dtype top_list
                   api fs num_of_stories) = Inl FileNotFoundError)
       \<and> (\<forall>old. fs ''comments.csv'' = Some old \<longrightarrow>
            snd (Data_collection_and_analysis_from_Hacker_News py_repr other_dtype top_list
                   api fs num_of_stories)
            = on_return (parse_csv other_dtype old) (\<lambda>comments_df.
                Inr (\<lparr> df_columns = story_fieldnames,
                        df_rows = read_table other_dtype (length story_fieldnames)
                                    (map (\<lambda>s. map mark (story_row py_repr s))
                                       articles_data) \<rparr>,
                     comments_df)))"
proof -
  define fs1 where "fs1 = Saving_data_in_a_csv_file py_repr fs articles_data [] ''top_stories''"
  have run: "Data_collection_and_analysis_from_Hacker_News py_repr other_dtype top_list api fs
        num_of_stories
      = (fs1, on_return (read_csv other_dtype fs1 ''top_stories.csv'') (\<lambda>stories_df.
                on_return (read_csv other_dtype fs1 ''comments.csv'') (\<lambda>comments_df.
                  Inr (stories_df, comments_df))))"
    by (simp add: run_after_builders [OF assms] fs1_def Let_def)
  have kept: "fs1 ''comments.csv'' = fs ''comments.csv''"
    by (simp add: fs1_def Saving_data_in_a_csv_file_def)
  have stories: "read_csv other_dtype fs1 ''top_stories.csv''
      = Inr \<lparr> df_columns = story_fieldnames,
              df_rows = read_table other_dtype (length story_fieldnames)
                          (map (\<lambda>s. map mark (story_row py_repr s)) articles_data) \<rparr>"
    using written_story_table [of other_dtype py_repr fs articles_data "[]" "''top_stories''"]
    by (simp add: fs1_def)
  have comments: "read_csv other_dtype fs1 ''comments.csv''
      = (case fs ''comments.csv'' of
           None \<Rightarrow> Inl FileNotFoundError
         | Some f \<Rightarrow> parse_csv other_dtype f)"
    by (simp add: read_csv_def kept)
  have missing: "fs ''comments.csv'' = None \<longrightarrow>
      snd (Data_collection_and_analysis_from_Hacker_News py_repr other_dtype top_list api fs
             num_of_stories) = Inl FileNotFoundError"
    by (simp add: run stories comments on_return_def)
  have stale: "\<forall>old. fs ''comments.csv'' = Some old \<longrightarrow>
      snd (Data_collection_and_analysis_from_Hacker_News py_repr other_dtype top_list api fs
             num_of_stories)
      = on_return (parse_csv other_dtype old) (\<lambda>comments_df.
          Inr (\<lparr> df_columns = story_fieldnames,
                  df_rows = read_table other_dtype (length story_fieldnames)
                              (map (\<lambda>s. map mark (story_row py_repr s)) articles_data) \<rparr>,
               comments_df))"
    by (simp add: run stories comments on_return_def)
  from kept missing stale show ?thesis
    by (simp add: run)
qed

lemma demo_run_reaches_builders:
  "on_return (on_return (response_json (Decoded (JList [JInt 3]))) top_stories_sequence)
     (\<lambda>top_stories_ids_array. Retrieving_data_about_articles api_demo top_stories_ids_array 1)
   = Inr [demo_story_3]"
  by (simp add: Retrieving_data_about_articles_def py_slice_to_def on_return_def
      response_json_def fetch_story_details_def request_json_def api_demo_def
      story_record_def dict_get_def demo_story_3_def)

lemma demo_run_no_comments:
  "Fetching_responses_to_top_stories api_demo [demo_story_3] = Inr []"
  by (simp add: story_comments_def request_json_def response_json_def on_return_def
      api_demo_def demo_story_3_def)

lemma demo_story_3_table:
  "read_table no_other_dtype (length story_fieldnames)
     (map (\<lambda>s. map mark (story_row repr_unused s)) [demo_story_3])
   = [[Integer 3, Text ''Show HN'', Text ''http://x'', Integer 30, Text ''dang'',
       Integer 1700003600, Integer 0, Text ''story'', Integer 7]]"
proof -
  have digits: "str_int 3 = ''3''" "str_int 30 = ''30''" "str_int 1700003600 = ''1700003600''"
      "str_int 0 = ''0''" "str_int 7 = ''7''"
    by (simp_all add: str_int_def str_nat.simps)
  have row: "map mark (story_row repr_unused demo_story_3)
      = [Some ''3'', Some ''Show HN'', Some ''http://x'', Some ''30'', Some ''dang'',
         Some ''1700003600'', Some ''0'', Some ''story'', Some ''7'']"
    by (simp add: story_row_def demo_story_3_def digits mark_def na_values_def)
  have cells: "read_column no_other_dtype [Some ''3''] = [Integer 3]"
      "read_column no_other_dtype [Some ''Show HN''] = [Text ''Show HN'']"
      "read_column no_other_dtype [Some ''http://x''] = [Text ''http://x'']"
      "read_column no_other_dtype [Some ''30''] = [Integer 30]"
      "read_column no_other_dtype [Some ''dang''] = [Text ''dang'']"
      "read_column no_other_dtype [Some ''1700003600''] = [Integer 1700003600]"
      "read_column no_other_dtype [Some ''0''] = [Integer 0]"
      "read_column no_other_dtype [Some ''story''] = [Text ''story'']"
      "read_column no_other_dtype [Some ''7''] = [Integer 7]"
    by (simp_all add: read_column_def integer_column_def present_def int64_text_def
        plain_int_def int64_def no_other_dtype_def)
  show ?thesis
    by (simp add: read_table_def story_fieldnames_def row cells upt_rec)
qed

lemma stale_comments_table:
  "parse_csv no_other_dtype stale_comments_file
     = Inr \<lparr> df_columns = comment_fieldnames,
             df_rows = [[Text ''pg'', Text ''an old comment'', Integer 1600000000,
                         Integer 99]] \<rparr>"
proof -
  have cells: "read_column no_other_dtype [Some ''pg''] = [Text ''pg'']"
      "read_column no_other_dtype [Some ''an old comment''] = [Text ''an old comment'']"
      "read_column no_other_dtype [Some ''1600000000''] = [Integer 1600000000]"
      "read_column no_other_dtype [Some ''99''] = [Integer 99]"
    by (simp_all add: read_column_def integer_column_def present_def int64_text_def
        plain_int_def int64_def no_other_dtype_def)
  have "parse_csv no_other_dtype stale_comments_file
     = Inr \<lparr> df_columns = comment_fieldnames,
             df_rows = read_table no_other_dtype (length comment_fieldnames)
                 (map (map mark) [[''pg'', ''an old comment'', ''1600000000'', ''99'']]) \<rparr>"
    unfolding stale_comments_file_def
    by (rule parse_csv_written) (simp_all add: comment_fieldnames_def)
  then show ?thesis
    by (simp add: read_table_def comment_fieldnames_def mark_def na_values_def cells upt_rec)
qed

theorem stale_comment_file_reloaded_witness:
  "snd (Data_collection_and_analysis_from_Hacker_News repr_unused no_other_dtype
          (Decoded (JList [JInt 3])) api_demo Map.empty 1) = Inl FileNotFoundError
   \<and> fst (Data_collection_and_analysis_from_Hacker_News repr_unused no_other_dtype
          (Decoded (JList [JInt 3])) api_demo [''comments.csv'' \<mapsto> stale_comments_file] 1)
        ''comments.csv''
       = Some stale_comments_file
   \<and> snd (Data_collection_and_analysis_from_Hacker_News repr_unused no_other_dtype
          (Decoded (JList [JInt 3])) api_demo [''comments.csv'' \<mapsto> stale_comments_file] 1)
       = Inr (\<lparr> df_columns = story_fieldnames,
                 df_rows = [[Integer 3, Text ''Show HN'', Text ''http://x'', Integer 30,
                             Text ''dang'', Integer 1700003600, Integer 0, Text ''story'',
                             Integer 7]] \<rparr>,
              \<lparr> df_columns = comment_fieldnames,
                 df_rows = [[Text ''pg'', Text ''an old comment'', Integer 1600000000,
                             Integer 99]] \<rparr>)"
proof -
  from stale_comment_file_reloaded [OF demo_run_reaches_builders demo_run_no_comments,
      of repr_unused no_other_dtype Map.empty]
  have none: "snd (Data_collection_and_analysis_from_Hacker_News repr_unused no_other_dtype
      (Decoded (JList [JInt 3])) api_demo Map.empty 1) = Inl FileNotFoundError"
    by simp
  from stale_comment_file_reloaded [OF demo_run_reaches_builders demo_run_no_comments,
      of repr_unused no_other_dtype "[''comments.csv'' \<mapsto> stale_comments_file]"]
  have some: "fst (Data_collection_and_analysis_from_Hacker_News repr_unused no_other_dtype
        (Decoded (JList [JInt 3])) api_demo [''comments.csv'' \<mapsto> stale_comments_file] 1)
        ''comments.csv'' = Some stale_comments_file"
    "snd (Data_collection_and_analysis_from_Hacker_News repr_unused no_other_dtype
        (Decoded (JList [JInt 3])) api_demo [''comments.csv'' \<mapsto> stale_comments_file] 1)
      = on_return (parse_csv no_other_dtype stale_comments_file) (\<lambda>comments_df.
          Inr (\<lparr> df_columns = story_fieldnames,
                  df_rows = read_table no_other_dtype (length story_fieldnames)
                              (map (\<lambda>s. map mark (story_row repr_unused s)) [demo_story_3]) \<rparr>,
               comments_df))"
    by simp_all
  from none some show ?thesis
    unfolding demo_story_3_table stale_comments_table by (simp add: on_return_def)
qed

end
